theory Spec2Isabelle
  imports Main "HOL-Library.Sublist"
begin

section \<open>JavaScript values used by the executor\<close>

text \<open>
  The model covers \<^verbatim>\<open>src/applescript-executor.ts\<close>. A JavaScript string is a sequence
  of code units; here it is a \<^typ>\<open>string\<close>, one \<^typ>\<open>char\<close> per code unit, so the model
  ranges over the code units below 256. The two non-ASCII characters of the source are in
  that range: the section sign of the field sentinel is U+00A7 and the line-continuation
  sign of the scripts is U+00AC.

  \<^verbatim>\<open>undefined\<close> is \<open>None\<close>: an optional argument, an optional field and an array
  read out of range are all \<open>option\<close> values.
\<close>

subsection \<open>Strings\<close>

text \<open>The white space and line terminators that \<^verbatim>\<open>trim\<close> and \<^verbatim>\<open>parseInt\<close> strip
  (those below 256: TAB, LF, VT, FF, CR, SP, NBSP).\<close>

definition isWhiteSpace :: "char \<Rightarrow> bool" where
  "isWhiteSpace c =
     (c = CHR 0x09 \<or> c = CHR 0x0A \<or> c = CHR 0x0B \<or> c = CHR 0x0C \<or> c = CHR 0x0D
      \<or> c = CHR 0x20 \<or> c = CHR 0xA0)"

text \<open>\<^verbatim>\<open>s.trim()\<close>\<close>

definition trim :: "string \<Rightarrow> string" where
  "trim s = rev (dropWhile isWhiteSpace (rev (dropWhile isWhiteSpace s)))"

text \<open>
  \<^verbatim>\<open>s.split(sep)\<close> for a string separator: the scan goes left to right, cuts at the
  first place where the separator starts and goes on behind it. The result is never empty
  for a non-empty separator; with the empty separator JavaScript returns the code units.
\<close>

function split_from :: "string \<Rightarrow> string \<Rightarrow> string \<Rightarrow> string list" where
  "split_from sep cur [] = [cur]"
| "split_from sep cur (c # cs) =
     (if sep \<noteq> [] \<and> take (length sep) (c # cs) = sep
      then cur # split_from sep [] (drop (length sep) (c # cs))
      else split_from sep (cur @ [c]) cs)"
  by pat_completeness auto
termination
  by (relation "measure (\<lambda>(sep, cur, s). length s)") auto

definition split :: "string \<Rightarrow> string \<Rightarrow> string list" where
  "split s sep = (if sep = [] then map (\<lambda>c. [c]) s else split_from sep [] s)"

text \<open>\<^verbatim>\<open>xs.join(sep)\<close>\<close>

fun join :: "string list \<Rightarrow> string \<Rightarrow> string" where
  "join [] sep = []"
| "join [x] sep = x"
| "join (x # y # ys) sep = x @ sep @ join (y # ys) sep"

text \<open>\<^verbatim>\<open>xs[i]\<close>: \<^verbatim>\<open>undefined\<close> out of range.\<close>

definition at :: "'a list \<Rightarrow> nat \<Rightarrow> 'a option" where
  "at xs i = (if i < length xs then Some (xs ! i) else None)"

text \<open>
  \<^verbatim>\<open>x || ''\<close> and \<^verbatim>\<open>x || undefined\<close> on a string that may be undefined: the
  empty string and \<^verbatim>\<open>undefined\<close> are the falsy ones.
\<close>

definition or_empty :: "string option \<Rightarrow> string" where
  "or_empty x = (case x of None \<Rightarrow> [] | Some s \<Rightarrow> s)"

definition or_undefined :: "string option \<Rightarrow> string option" where
  "or_undefined x = (case x of None \<Rightarrow> None | Some s \<Rightarrow> if s = [] then None else Some s)"

text \<open>\<^verbatim>\<open>s.replace(/'/g, "\\'")\<close>: every single quote becomes a backslash and a single
  quote (the replacement text has no dollar sign, so it is taken literally).\<close>

fun replace_quotes :: "string \<Rightarrow> string" where
  "replace_quotes [] = []"
| "replace_quotes (c # cs) =
     (if c = CHR 0x27 then CHR 0x5C # CHR 0x27 # replace_quotes cs else c # replace_quotes cs)"

subsection \<open>Numbers\<close>

text \<open>
  A number is NaN, an infinity, an integer, or a number that is not an integer:
  \<open>Fraction m k\<close> is \<open>m / 2\<^sup>k\<close> for an odd \<open>m\<close> and a positive \<open>k\<close>, which is what
  a double that is not an integer is. \<^verbatim>\<open>parseInt\<close> returns NaN, an infinity or an
  integer that is a double; a caller can pass any number as a priority. Minus zero is not
  kept apart from zero: both are falsy, both print as \<^verbatim>\<open>0\<close>, and
  \<^verbatim>\<open>parseInt(..) || 0\<close> turns both into zero.
\<close>

datatype number = NaN | PosInfinity | NegInfinity | Finite int | Fraction int nat

text \<open>The numbers that count as false in a condition: NaN and zero.\<close>

definition falsy :: "number \<Rightarrow> bool" where
  "falsy n = (n = NaN \<or> n = Finite 0)"

fun bitlen :: "nat \<Rightarrow> nat" where
  "bitlen n = (if n = 0 then 0 else Suc (bitlen (n div 2)))"

declare bitlen.simps [simp del]

text \<open>The double nearest to a natural number (ties to even); \<open>None\<close> is infinity.\<close>

definition round_double :: "nat \<Rightarrow> nat option" where
  "round_double n =
     (if n < 2 ^ 53 then Some n
      else let e = bitlen n - 53;
               q = n div 2 ^ e;
               r = n mod 2 ^ e;
               h = 2 ^ (e - 1);
               q' = (if h < r \<or> (r = h \<and> odd q) then q + 1 else q)
           in if 2 ^ 1024 \<le> q' * 2 ^ e then None else Some (q' * 2 ^ e))"

definition digit_value :: "char \<Rightarrow> nat option" where
  "digit_value c =
     (let k = (of_char c :: nat) in
      if 48 \<le> k \<and> k \<le> 57 then Some (k - 48)
      else if 97 \<le> k \<and> k \<le> 122 then Some (k - 87)
      else if 65 \<le> k \<and> k \<le> 90 then Some (k - 55)
      else None)"

definition is_digit :: "nat \<Rightarrow> char \<Rightarrow> bool" where
  "is_digit R c = (case digit_value c of None \<Rightarrow> False | Some d \<Rightarrow> d < R)"

definition digits_value :: "nat \<Rightarrow> string \<Rightarrow> nat" where
  "digits_value R Z = foldl (\<lambda>a c. a * R + (case digit_value c of None \<Rightarrow> 0 | Some d \<Rightarrow> d)) 0 Z"

text \<open>
  \<^verbatim>\<open>parseInt(s)\<close> with no radix: leading white space is skipped, one sign is read, a
  prefix \<^verbatim>\<open>0x\<close> or \<^verbatim>\<open>0X\<close> selects radix 16, and the longest run of digits is
  the numeral; what follows it is ignored. No digit at all gives NaN.
\<close>

definition parseInt_string :: "string \<Rightarrow> number" where
  "parseInt_string s =
     (let S = dropWhile isWhiteSpace s;
          neg = (S \<noteq> [] \<and> hd S = CHR ''-'');
          S1 = (if S \<noteq> [] \<and> (hd S = CHR ''+'' \<or> hd S = CHR ''-'') then tl S else S);
          hex = (take 2 S1 = ''0x'' \<or> take 2 S1 = ''0X'');
          R = (if hex then 16 else 10);
          S2 = (if hex then drop 2 S1 else S1);
          Z = takeWhile (is_digit R) S2
      in if Z = [] then NaN
         else case round_double (digits_value R Z) of
                None \<Rightarrow> (if neg then NegInfinity else PosInfinity)
              | Some m \<Rightarrow> Finite (if neg then - int m else int m))"

text \<open>The argument is converted to a string first: \<^verbatim>\<open>undefined\<close> is read as the text
  \<^verbatim>\<open>undefined\<close>.\<close>

definition parseInt :: "string option \<Rightarrow> number" where
  "parseInt x = parseInt_string (case x of None \<Rightarrow> ''undefined'' | Some s \<Rightarrow> s)"

text \<open>\<^verbatim>\<open>n || 0\<close>: NaN and zero are the falsy numbers.\<close>

definition or_zero :: "number \<Rightarrow> number" where
  "or_zero n = (case n of NaN \<Rightarrow> Finite 0 | _ \<Rightarrow> n)"

text \<open>
  The decimal numeral of an integer. It is the text JavaScript prints for an integer of
  magnitude below \<open>2\<^sup>5\<^sup>3\<close>, and it is used for those only.

  A number in a template literal is printed by the built-in conversion of numbers to text
  (the shortest digits that read back as the same double, in exponent form from
  \<open>10\<^sup>2\<^sup>1\<close>). That conversion is no part of the repository: the functions that print a
  number take it as their parameter \<open>toString\<close>.
\<close>

fun decimal :: "nat \<Rightarrow> string" where
  "decimal n =
     (if n < 10 then [char_of (48 + n)] else decimal (n div 10) @ [char_of (48 + n mod 10)])"

declare decimal.simps [simp del]

definition number_text :: "int \<Rightarrow> string" where
  "number_text i = (if i < 0 then CHR ''-'' # decimal (nat (- i)) else decimal (nat i))"

definition boolean_text :: "bool \<Rightarrow> string" where
  "boolean_text b = (if b then ''true'' else ''false'')"

section \<open>The data model\<close>

text \<open>
  The interfaces \<^verbatim>\<open>RemindersList\<close> and \<^verbatim>\<open>Reminder\<close>. The field names carry a
  prefix, since both interfaces have \<^verbatim>\<open>name\<close> and \<^verbatim>\<open>id\<close>.
\<close>

record RemindersList =
  l_name :: string
  l_id :: string

record Reminder =
  r_id :: string
  r_name :: string
  r_body :: "string option"
  r_completed :: bool
  r_list :: string
  r_dueDate :: "string option"
  r_priority :: number
  r_creationDate :: string
  r_modificationDate :: string

text \<open>What a call can throw: the \<^verbatim>\<open>Error\<close> of \<^verbatim>\<open>executeScript\<close> with its message,
  and the \<^verbatim>\<open>TypeError\<close> of a method call on \<^verbatim>\<open>undefined\<close>.\<close>

datatype js_error = Error string | TypeError

section \<open>Running a script\<close>

text \<open>
  \<^verbatim>\<open>execAsync(command)\<close> either resolves with the standard output and standard error
  of the child process, or rejects (spawn failure, non-zero exit) with an error; the model
  keeps the text \<^verbatim>\<open>${error}\<close> of that error. The child process is a parameter of the
  model: a function from the command line to the outcome.
\<close>

datatype exec_outcome = Resolved string string | Rejected string

type_synonym exec = "string \<Rightarrow> exec_outcome"

definition osascript_command :: "string \<Rightarrow> string" where
  "osascript_command script = ''osascript -e '' @ [CHR 0x27] @ replace_quotes script @ [CHR 0x27]"

definition executeScript :: "exec \<Rightarrow> string \<Rightarrow> js_error + string" where
  "executeScript execAsync script =
     (case execAsync (osascript_command script) of
        Resolved stdout stderr \<Rightarrow> Inr (trim stdout)
      | Rejected error \<Rightarrow> Inl (Error (''AppleScript execution failed: '' @ error)))"

section \<open>Decoding reminders\<close>

definition sentinel :: string where
  "sentinel = [CHR 0xA7, CHR 0xA7, CHR 0xA7]"

text \<open>The object literal of the \<^verbatim>\<open>map\<close> callback in \<^verbatim>\<open>getReminders\<close>.\<close>

definition getReminders_line :: "string \<Rightarrow> Reminder" where
  "getReminders_line line =
     (let parts = split line sentinel in
      \<lparr> r_id = or_empty (at parts 4),
        r_name = or_empty (at parts 0),
        r_body = or_undefined (at parts 1),
        r_completed = (at parts 2 = Some ''true''),
        r_list = or_empty (at parts 3),
        r_dueDate = or_undefined (at parts 8),
        r_priority = or_zero (parseInt (at parts 7)),
        r_creationDate = or_empty (at parts 5),
        r_modificationDate = or_empty (at parts 6) \<rparr>)"

text \<open>The object literal of the \<^verbatim>\<open>map\<close> callback in \<^verbatim>\<open>searchReminders\<close>.\<close>

definition searchReminders_line :: "string \<Rightarrow> Reminder" where
  "searchReminders_line line =
     (let parts = split line sentinel in
      \<lparr> r_id = or_empty (at parts 4),
        r_name = or_empty (at parts 0),
        r_body = or_undefined (at parts 1),
        r_completed = (at parts 2 = Some ''true''),
        r_list = or_empty (at parts 3),
        r_dueDate = or_undefined (at parts 8),
        r_priority = or_zero (parseInt (at parts 7)),
        r_creationDate = or_empty (at parts 5),
        r_modificationDate = or_empty (at parts 6) \<rparr>)"

text \<open>What each of the two functions does with the result of its script.\<close>

definition getReminders_decode :: "string \<Rightarrow> Reminder list" where
  "getReminders_decode result =
     (if result = [] then []
      else map getReminders_line (filter (\<lambda>line. trim line \<noteq> []) (split result ''\<newline>'')))"

definition searchReminders_decode :: "string \<Rightarrow> Reminder list" where
  "searchReminders_decode result =
     (if result = [] then []
      else map searchReminders_line (filter (\<lambda>line. trim line \<noteq> []) (split result ''\<newline>'')))"

section \<open>Reminder lists\<close>

definition getReminderLists_script :: string where
  "getReminderLists_script =
     ''\<newline>'' @
     ''      tell application \"Reminders\"\<newline>'' @
     ''        set listNames to {}\<newline>'' @
     ''        set listIds to {}\<newline>'' @
     ''        repeat with reminderList in every list\<newline>'' @
     ''          set end of listNames to name of reminderList\<newline>'' @
     ''          set end of listIds to id of reminderList\<newline>'' @
     ''        end repeat\<newline>'' @
     ''        return listNames & \"|||\" & listIds\<newline>'' @
     ''      end tell\<newline>'' @
     ''    ''"

text \<open>
  The destructuring \<^verbatim>\<open>[namesStr, idsStr] = result.split('|||')\<close> reads the first two
  parts; a part that is not there is \<^verbatim>\<open>undefined\<close>, and \<^verbatim>\<open>.split\<close> on it throws
  a \<^verbatim>\<open>TypeError\<close>. The callback of \<^verbatim>\<open>names.map\<close> gets each name with its index
  and reads \<^verbatim>\<open>ids[index]?.trim() || ''\<close>.
\<close>

definition getReminderLists_decode :: "string \<Rightarrow> js_error + RemindersList list" where
  "getReminderLists_decode result =
     (let parts = split result ''|||'' in
      case at parts 0 of
        None \<Rightarrow> Inl TypeError
      | Some namesStr \<Rightarrow>
          (let names = split namesStr '', '' in
           case at parts 1 of
             None \<Rightarrow> Inl TypeError
           | Some idsStr \<Rightarrow>
               (let ids = split idsStr '', '' in
                Inr (map (\<lambda>(index, name).
                            \<lparr> l_name = trim name,
                              l_id = or_empty (map_option trim (at ids index)) \<rparr>)
                         (enumerate 0 names)))))"

definition getReminderLists :: "exec \<Rightarrow> js_error + RemindersList list" where
  "getReminderLists execAsync =
     (case executeScript execAsync getReminderLists_script of
        Inl e \<Rightarrow> Inl e
      | Inr result \<Rightarrow> getReminderLists_decode result)"

section \<open>Reading reminders\<close>

definition getReminders_script :: "string option \<Rightarrow> bool option \<Rightarrow> string" where
  "getReminders_script listName completed =
     (let listFilter =
            (case listName of
               None \<Rightarrow> []
             | Some l \<Rightarrow> if l = [] then [] else ''in list \"'' @ l @ ''\"'');
          completedFilter =
            (case completed of
               None \<Rightarrow> []
             | Some c \<Rightarrow> ''whose completed is '' @ boolean_text c)
      in
     ''\<newline>'' @
     ''      tell application \"Reminders\"\<newline>'' @
     ''        set reminderData to {}\<newline>'' @
     ''        set targetReminders to every reminder '' @ listFilter @ '' '' @ completedFilter @ ''\<newline>'' @
     ''        repeat with rem in targetReminders\<newline>'' @
     ''          set reminderInfo to (name of rem) & \"'' @ sentinel @ ''\" & '' @ [CHR 0xAC] @ ''\<newline>'' @
     ''            (body of rem) & \"'' @ sentinel @ ''\" & '' @ [CHR 0xAC] @ ''\<newline>'' @
     ''            (completed of rem) & \"'' @ sentinel @ ''\" & '' @ [CHR 0xAC] @ ''\<newline>'' @
     ''            (name of container of rem) & \"'' @ sentinel @ ''\" & '' @ [CHR 0xAC] @ ''\<newline>'' @
     ''            (id of rem) & \"'' @ sentinel @ ''\" & '' @ [CHR 0xAC] @ ''\<newline>'' @
     ''            (creation date of rem) & \"'' @ sentinel @ ''\" & '' @ [CHR 0xAC] @ ''\<newline>'' @
     ''            (modification date of rem) & \"'' @ sentinel @ ''\" & '' @ [CHR 0xAC] @ ''\<newline>'' @
     ''            (priority of rem)\<newline>'' @
     ''          try\<newline>'' @
     ''            set dueInfo to due date of rem\<newline>'' @
     ''            set reminderInfo to reminderInfo & \"'' @ sentinel @ ''\" & dueInfo\<newline>'' @
     ''          on error\<newline>'' @
     ''            set reminderInfo to reminderInfo & \"'' @ sentinel @ ''\"\<newline>'' @
     ''          end try\<newline>'' @
     ''          set end of reminderData to reminderInfo\<newline>'' @
     ''        end repeat\<newline>'' @
     ''        return reminderData\<newline>'' @
     ''      end tell\<newline>'' @
     ''    '')"

definition getReminders :: "exec \<Rightarrow> string option \<Rightarrow> bool option \<Rightarrow> js_error + Reminder list" where
  "getReminders execAsync listName completed =
     (case executeScript execAsync (getReminders_script listName completed) of
        Inl e \<Rightarrow> Inl e
      | Inr result \<Rightarrow> Inr (getReminders_decode result))"

definition searchReminders_script :: "string \<Rightarrow> string" where
  "searchReminders_script searchTerm =
     ''\<newline>'' @
     ''      tell application \"Reminders\"\<newline>'' @
     ''        set foundReminders to {}\<newline>'' @
     ''        set allReminders to every reminder\<newline>'' @
     ''        repeat with rem in allReminders\<newline>'' @
     ''          if (name of rem) contains \"'' @ searchTerm @ ''\" or (body of rem) contains \"'' @ searchTerm @ ''\" then\<newline>'' @
     ''            set reminderInfo to (name of rem) & \"'' @ sentinel @ ''\" & '' @ [CHR 0xAC] @ ''\<newline>'' @
     ''              (body of rem) & \"'' @ sentinel @ ''\" & '' @ [CHR 0xAC] @ ''\<newline>'' @
     ''              (completed of rem) & \"'' @ sentinel @ ''\" & '' @ [CHR 0xAC] @ ''\<newline>'' @
     ''              (name of container of rem) & \"'' @ sentinel @ ''\" & '' @ [CHR 0xAC] @ ''\<newline>'' @
     ''              (id of rem) & \"'' @ sentinel @ ''\" & '' @ [CHR 0xAC] @ ''\<newline>'' @
     ''              (creation date of rem) & \"'' @ sentinel @ ''\" & '' @ [CHR 0xAC] @ ''\<newline>'' @
     ''              (modification date of rem) & \"'' @ sentinel @ ''\" & '' @ [CHR 0xAC] @ ''\<newline>'' @
     ''              (priority of rem)\<newline>'' @
     ''            try\<newline>'' @
     ''              set dueInfo to due date of rem\<newline>'' @
     ''              set reminderInfo to reminderInfo & \"'' @ sentinel @ ''\" & dueInfo\<newline>'' @
     ''            on error\<newline>'' @
     ''              set reminderInfo to reminderInfo & \"'' @ sentinel @ ''\"\<newline>'' @
     ''            end try\<newline>'' @
     ''            set end of foundReminders to reminderInfo\<newline>'' @
     ''          end if\<newline>'' @
     ''        end repeat\<newline>'' @
     ''        return foundReminders\<newline>'' @
     ''      end tell\<newline>'' @
     ''    ''"

definition searchReminders :: "exec \<Rightarrow> string \<Rightarrow> js_error + Reminder list" where
  "searchReminders execAsync searchTerm =
     (case executeScript execAsync (searchReminders_script searchTerm) of
        Inl e \<Rightarrow> Inl e
      | Inr result \<Rightarrow> Inr (searchReminders_decode result))"

section \<open>Creating, updating and deleting\<close>

text \<open>
  The three optional clauses of \<^verbatim>\<open>createReminder\<close>. Each test is a truthiness test:
  \<^verbatim>\<open>undefined\<close>, the empty string, the number zero and NaN give the empty clause.
\<close>

definition bodyScript :: "string option \<Rightarrow> string" where
  "bodyScript body =
     (case body of
        None \<Rightarrow> []
      | Some b \<Rightarrow> if b = [] then [] else ''set body of newReminder to \"'' @ b @ ''\"'')"

definition dueDateScript :: "string option \<Rightarrow> string" where
  "dueDateScript dueDate =
     (case dueDate of
        None \<Rightarrow> []
      | Some d \<Rightarrow> if d = [] then [] else ''set due date of newReminder to date \"'' @ d @ ''\"'')"

definition priorityScript :: "(number \<Rightarrow> string) \<Rightarrow> number option \<Rightarrow> string" where
  "priorityScript toString priority =
     (case priority of
        None \<Rightarrow> []
      | Some p \<Rightarrow> if falsy p then [] else ''set priority of newReminder to '' @ toString p)"

definition createReminder_script ::
  "(number \<Rightarrow> string) \<Rightarrow> string \<Rightarrow> string \<Rightarrow> string option \<Rightarrow> string option \<Rightarrow> number option
     \<Rightarrow> string" where
  "createReminder_script toString name listName body dueDate priority =
     ''\<newline>'' @
     ''      tell application \"Reminders\"\<newline>'' @
     ''        set targetList to list \"'' @ listName @ ''\"\<newline>'' @
     ''        set newReminder to make new reminder in targetList\<newline>'' @
     ''        set name of newReminder to \"'' @ name @ ''\"\<newline>'' @
     ''        '' @ bodyScript body @ ''\<newline>'' @
     ''        '' @ dueDateScript dueDate @ ''\<newline>'' @
     ''        '' @ priorityScript toString priority @ ''\<newline>'' @
     ''        return id of newReminder\<newline>'' @
     ''      end tell\<newline>'' @
     ''    ''"

definition createReminder ::
  "exec \<Rightarrow> (number \<Rightarrow> string) \<Rightarrow> string \<Rightarrow> string \<Rightarrow> string option \<Rightarrow> string option
     \<Rightarrow> number option \<Rightarrow> js_error + string" where
  "createReminder execAsync toString name listName body dueDate priority =
     executeScript execAsync (createReminder_script toString name listName body dueDate priority)"

text \<open>The \<^verbatim>\<open>updates\<close> argument of \<^verbatim>\<open>updateReminder\<close>.\<close>

record updates =
  u_name :: "string option"
  u_body :: "string option"
  u_completed :: "bool option"
  u_dueDate :: "string option"
  u_priority :: "number option"

text \<open>
  The array \<^verbatim>\<open>updateCommands\<close> after the five conditional pushes. The tests are not
  alike: \<^verbatim>\<open>name\<close> and \<^verbatim>\<open>dueDate\<close> are tested for truthiness, the other three
  against \<^verbatim>\<open>undefined\<close>.
\<close>

definition updateCommands :: "(number \<Rightarrow> string) \<Rightarrow> updates \<Rightarrow> string list" where
  "updateCommands toString u =
     (case u_name u of
        None \<Rightarrow> []
      | Some n \<Rightarrow> if n = [] then [] else [''set name of targetReminder to \"'' @ n @ ''\"'']) @
     (case u_body u of
        None \<Rightarrow> []
      | Some b \<Rightarrow> [''set body of targetReminder to \"'' @ b @ ''\"'']) @
     (case u_completed u of
        None \<Rightarrow> []
      | Some c \<Rightarrow> [''set completed of targetReminder to '' @ boolean_text c]) @
     (case u_dueDate u of
        None \<Rightarrow> []
      | Some d \<Rightarrow> if d = [] then [] else [''set due date of targetReminder to date \"'' @ d @ ''\"'']) @
     (case u_priority u of
        None \<Rightarrow> []
      | Some p \<Rightarrow> [''set priority of targetReminder to '' @ toString p])"

definition updateReminder_script :: "(number \<Rightarrow> string) \<Rightarrow> string \<Rightarrow> updates \<Rightarrow> string" where
  "updateReminder_script toString reminderId u =
     ''\<newline>'' @
     ''      tell application \"Reminders\"\<newline>'' @
     ''        set targetReminder to reminder id \"'' @ reminderId @ ''\"\<newline>'' @
     ''        '' @ join (updateCommands toString u) ''\<newline>        '' @ ''\<newline>'' @
     ''      end tell\<newline>'' @
     ''    ''"

definition updateReminder ::
  "exec \<Rightarrow> (number \<Rightarrow> string) \<Rightarrow> string \<Rightarrow> updates \<Rightarrow> js_error + unit" where
  "updateReminder execAsync toString reminderId u =
     (case executeScript execAsync (updateReminder_script toString reminderId u) of
        Inl e \<Rightarrow> Inl e
      | Inr result \<Rightarrow> Inr ())"

definition deleteReminder_script :: "string \<Rightarrow> string" where
  "deleteReminder_script reminderId =
     ''\<newline>'' @
     ''      tell application \"Reminders\"\<newline>'' @
     ''        delete reminder id \"'' @ reminderId @ ''\"\<newline>'' @
     ''      end tell\<newline>'' @
     ''    ''"

definition deleteReminder :: "exec \<Rightarrow> string \<Rightarrow> js_error + unit" where
  "deleteReminder execAsync reminderId =
     (case executeScript execAsync (deleteReminder_script reminderId) of
        Inl e \<Rightarrow> Inl e
      | Inr result \<Rightarrow> Inr ())"

section \<open>Reading an update command\<close>

text \<open>
  To say which fields a command of \<^verbatim>\<open>updateReminder\<close> assigns, a clause is read back
  by the words it starts with. \<open>present\<close> is the partial-update contract as the
  specification words it (a field counts when it is not \<^verbatim>\<open>undefined\<close>); \<open>truthy_or_present\<close>
  is the test the five \<^verbatim>\<open>if\<close> statements make.
\<close>

datatype update_field = Name | Body | Completed | DueDate | Priority

definition update_fields :: "update_field list" where
  "update_fields = [Name, Body, Completed, DueDate, Priority]"

definition assigned_field :: "string \<Rightarrow> update_field option" where
  "assigned_field clause =
     (if prefix ''set name of targetReminder to '' clause then Some Name
      else if prefix ''set body of targetReminder to '' clause then Some Body
      else if prefix ''set completed of targetReminder to '' clause then Some Completed
      else if prefix ''set due date of targetReminder to '' clause then Some DueDate
      else if prefix ''set priority of targetReminder to '' clause then Some Priority
      else None)"

fun present :: "updates \<Rightarrow> update_field \<Rightarrow> bool" where
  "present u Name = (u_name u \<noteq> None)"
| "present u Body = (u_body u \<noteq> None)"
| "present u Completed = (u_completed u \<noteq> None)"
| "present u DueDate = (u_dueDate u \<noteq> None)"
| "present u Priority = (u_priority u \<noteq> None)"

fun truthy_or_present :: "updates \<Rightarrow> update_field \<Rightarrow> bool" where
  "truthy_or_present u Name = (u_name u \<noteq> None \<and> u_name u \<noteq> Some [])"
| "truthy_or_present u Body = (u_body u \<noteq> None)"
| "truthy_or_present u Completed = (u_completed u \<noteq> None)"
| "truthy_or_present u DueDate = (u_dueDate u \<noteq> None \<and> u_dueDate u \<noteq> Some [])"
| "truthy_or_present u Priority = (u_priority u \<noteq> None)"

section \<open>Splitting and joining\<close>

text \<open>
  The scan of \<open>split_from\<close> passes over a stretch that has no first character of the
  separator, and cuts where the separator stands.
\<close>

lemma split_from_skip:
  assumes "c \<notin> set x"
  shows "split_from (c # rest) cur (x @ tail) = split_from (c # rest) (cur @ x) tail"
  using assms
proof (induction x arbitrary: cur)
  case Nil
  then show ?case by simp
next
  case (Cons a x)
  then have "a \<noteq> c" and "c \<notin> set x" by auto
  then show ?case using Cons.IH [of "cur @ [a]"] by simp
qed

lemma split_from_cut:
  "sep \<noteq> [] \<Longrightarrow> split_from sep cur (sep @ tail) = cur # split_from sep [] tail"
  by (cases sep) simp_all

lemma split_from_join:
  assumes "\<forall>x \<in> set xs. c \<notin> set x" and "xs \<noteq> []"
  shows "split_from (c # rest) cur (join xs (c # rest)) = (cur @ hd xs) # tl xs"
  using assms
proof (induction xs arbitrary: cur)
  case Nil
  then show ?case by simp
next
  case (Cons x xs)
  show ?case
  proof (cases xs)
    case Nil
    have "split_from (c # rest) cur (x @ []) = split_from (c # rest) (cur @ x) []"
      using Cons.prems by (intro split_from_skip) simp
    then show ?thesis using Nil by simp
  next
    case (Cons y ys)
    have x: "c \<notin> set x" using Cons.prems by simp
    have "split_from (c # rest) cur (x @ (c # rest) @ join xs (c # rest))
          = split_from (c # rest) (cur @ x) ((c # rest) @ join xs (c # rest))"
      using x by (rule split_from_skip)
    also have "\<dots> = (cur @ x) # split_from (c # rest) [] (join xs (c # rest))"
      by (rule split_from_cut) simp
    also have "split_from (c # rest) [] (join xs (c # rest)) = ([] @ hd xs) # tl xs"
      using Cons.prems Cons by (intro Cons.IH) auto
    finally show ?thesis using Cons by simp
  qed
qed

text \<open>Splitting undoes joining when no part holds the first character of the separator.\<close>

lemma split_join:
  assumes "\<forall>x \<in> set xs. c \<notin> set x" and "xs \<noteq> []"
  shows "split (join xs (c # rest)) (c # rest) = xs"
  using split_from_join [OF assms, of rest "[]"] assms(2) by (simp add: split_def)

lemma sentinel_split_join:
  "\<forall>f \<in> set slots. CHR 0xA7 \<notin> set f \<Longrightarrow> slots \<noteq> [] \<Longrightarrow>
   split (join slots sentinel) sentinel = slots"
  unfolding sentinel_def by (rule split_join)

text \<open>A text in which the separator does not occur is one part.\<close>

lemma split_from_none:
  "\<not> sublist sep s \<Longrightarrow> split_from sep cur s = [cur @ s]"
proof (induction s arbitrary: cur)
  case Nil
  then show ?case by simp
next
  case (Cons a s)
  have "\<not> sublist sep s" using Cons.prems by (auto simp: sublist_Cons_right)
  moreover have "take (length sep) (a # s) \<noteq> sep"
  proof
    assume "take (length sep) (a # s) = sep"
    then have "prefix sep (a # s)" by (metis take_is_prefix)
    then show False using Cons.prems by (auto dest: prefix_imp_sublist)
  qed
  ultimately show ?case using Cons.IH [of "cur @ [a]"] by simp
qed

lemmas line_defs = getReminders_line_def searchReminders_line_def Let_def

section \<open>The two line decoders\<close>

text \<open>
  C10. The decoding of one line in \<^verbatim>\<open>searchReminders\<close> and the decoding of one line in
  \<^verbatim>\<open>getReminders\<close> give the same record for every line, field by field, and so the two
  functions decode every result text to the same sequence of records.
\<close>

theorem line_decoders_agree:
  "searchReminders_line line = getReminders_line line
   \<and> searchReminders_decode result = getReminders_decode result"
proof -
  have "searchReminders_line = getReminders_line"
    by (rule ext) (simp add: getReminders_line_def searchReminders_line_def)
  then show ?thesis
    by (simp add: getReminders_decode_def searchReminders_decode_def)
qed

section \<open>The completed slot\<close>

text \<open>
  C7. In both decoders \<^verbatim>\<open>completed\<close> is true exactly when the third slot of the line is
  the text \<^verbatim>\<open>true\<close>; any other text, and a missing slot, give false. For a line that
  is the join of slots free of the section sign, the third slot is the third of the joined
  texts, so the decoded value is true exactly when that text is \<^verbatim>\<open>true\<close>.
\<close>

theorem completed_exact_match:
  "(r_completed (getReminders_line line) \<longleftrightarrow> at (split line sentinel) 2 = Some ''true'')
   \<and> (r_completed (searchReminders_line line) \<longleftrightarrow> at (split line sentinel) 2 = Some ''true'')
   \<and> ((\<forall>f \<in> set slots. CHR 0xA7 \<notin> set f) \<and> 2 < length slots \<longrightarrow>
        (r_completed (getReminders_line (join slots sentinel)) \<longleftrightarrow> slots ! 2 = ''true'')
        \<and> (r_completed (searchReminders_line (join slots sentinel)) \<longleftrightarrow> slots ! 2 = ''true''))"
proof (intro conjI impI)
  show "r_completed (getReminders_line line) \<longleftrightarrow> at (split line sentinel) 2 = Some ''true''"
    by (simp add: line_defs)
  show "r_completed (searchReminders_line line) \<longleftrightarrow> at (split line sentinel) 2 = Some ''true''"
    by (simp add: line_defs)
next
  assume h: "(\<forall>f \<in> set slots. CHR 0xA7 \<notin> set f) \<and> 2 < length slots"
  then have "split (join slots sentinel) sentinel = slots"
    by (intro sentinel_split_join) auto
  with h show "r_completed (getReminders_line (join slots sentinel)) \<longleftrightarrow> slots ! 2 = ''true''"
    and "r_completed (searchReminders_line (join slots sentinel)) \<longleftrightarrow> slots ! 2 = ''true''"
    by (simp_all add: line_defs at_def)
qed

text \<open>The theorem at two lines of four slots: one completed, one with \<^verbatim>\<open>no\<close>.\<close>

theorem completed_exact_match_witness:
  "CHR 0xA7 \<notin> set (concat [''Buy milk'', '''', ''true'', ''Personal''])
   \<and> 2 < length [''Buy milk'', '''', ''true'', ''Personal'']
   \<and> r_completed (getReminders_line (join [''Buy milk'', '''', ''true'', ''Personal''] sentinel))
   \<and> \<not> r_completed (searchReminders_line (join [''Buy milk'', '''', ''no'', ''Personal''] sentinel))"
proof -
  have h1: "(\<forall>f \<in> set [''Buy milk'', '''', ''true'', ''Personal'']. CHR 0xA7 \<notin> set f)
    \<and> 2 < length [''Buy milk'', '''', ''true'', ''Personal'']"
    by simp
  have h2: "(\<forall>f \<in> set [''Buy milk'', '''', ''no'', ''Personal'']. CHR 0xA7 \<notin> set f)
    \<and> 2 < length [''Buy milk'', '''', ''no'', ''Personal'']"
    by simp
  have v1: "[''Buy milk'', '''', ''true'', ''Personal''] ! 2 = ''true''"
    and v2: "[''Buy milk'', '''', ''no'', ''Personal''] ! 2 \<noteq> ''true''"
    by simp_all
  note c = completed_exact_match [where line = "[]", THEN conjunct2, THEN conjunct2, rule_format]
  show ?thesis
    using c [OF h1] c [OF h2] v1 v2 by simp
qed

section \<open>The body slot\<close>

text \<open>
  A line with one slot has no body capture, and its decoded body is \<^verbatim>\<open>undefined\<close>, not
  the empty string.
\<close>

theorem missing_body_counterexample:
  "at (split ''Buy milk'' sentinel) 1 = None \<and> r_body (getReminders_line ''Buy milk'') \<noteq> Some ''''"
  by (simp add: line_defs split_def sentinel_def at_def or_undefined_def)

text \<open>
  C9, as the code has it. The decoded body is never the empty string: it is
  \<^verbatim>\<open>undefined\<close> exactly when the second slot is missing or empty, and it is the second
  slot otherwise. For a line that is the join of slots free of the section sign, the body
  is the second of the joined texts when there is one and it is not empty, and
  \<^verbatim>\<open>undefined\<close> otherwise.
\<close>

theorem body_never_empty_string:
  "r_body (getReminders_line line) \<noteq> Some ''''
   \<and> (r_body (getReminders_line line) = None \<longleftrightarrow>
        at (split line sentinel) 1 = None \<or> at (split line sentinel) 1 = Some '''')
   \<and> (r_body (getReminders_line line) \<noteq> None \<longrightarrow>
        r_body (getReminders_line line) = at (split line sentinel) 1)
   \<and> ((\<forall>f \<in> set slots. CHR 0xA7 \<notin> set f) \<and> slots \<noteq> [] \<longrightarrow>
        r_body (getReminders_line (join slots sentinel)) =
          (if 1 < length slots \<and> slots ! 1 \<noteq> [] then Some (slots ! 1) else None))"
proof (intro conjI impI)
  show "r_body (getReminders_line line) \<noteq> Some ''''"
    by (simp add: line_defs or_undefined_def split: option.splits)
  show "r_body (getReminders_line line) = None \<longleftrightarrow>
        at (split line sentinel) 1 = None \<or> at (split line sentinel) 1 = Some ''''"
    by (simp add: line_defs or_undefined_def split: option.splits)
  show "r_body (getReminders_line line) = at (split line sentinel) 1"
    if "r_body (getReminders_line line) \<noteq> None"
    using that by (simp add: line_defs or_undefined_def split: option.splits if_splits)
next
  assume h: "(\<forall>f \<in> set slots. CHR 0xA7 \<notin> set f) \<and> slots \<noteq> []"
  then have "split (join slots sentinel) sentinel = slots"
    by (intro sentinel_split_join) auto
  then show "r_body (getReminders_line (join slots sentinel)) =
          (if 1 < length slots \<and> slots ! 1 \<noteq> [] then Some (slots ! 1) else None)"
    by (simp add: line_defs at_def or_undefined_def)
qed

text \<open>The theorem at a line whose body slot is there and empty.\<close>

theorem body_never_empty_string_witness:
  "CHR 0xA7 \<notin> set (concat [''Buy milk'', '''', ''false''])
   \<and> [''Buy milk'', '''', ''false''] \<noteq> []
   \<and> r_body (getReminders_line (join [''Buy milk'', '''', ''false''] sentinel)) = None"
proof -
  have h: "(\<forall>f \<in> set [''Buy milk'', '''', ''false'']. CHR 0xA7 \<notin> set f)
    \<and> [''Buy milk'', '''', ''false''] \<noteq> []"
    by simp
  have v: "\<not> (1 < length [''Buy milk'', '''', ''false''] \<and> [''Buy milk'', '''', ''false''] ! 1 \<noteq> [])"
    by simp
  note c = body_never_empty_string [where line = "[]", THEN conjunct2, THEN conjunct2, THEN conjunct2, rule_format]
  show ?thesis
    using c [OF h] v by simp
qed

section \<open>Trimming\<close>

text \<open>\<open>trim\<close> takes white space off both ends and nothing else.\<close>

lemma rev_dropWhile_takeWhile:
  "rev (dropWhile P (rev xs)) @ rev (takeWhile P (rev xs)) = xs"
  by (metis rev_append rev_rev_ident takeWhile_dropWhile_id)

lemma trim_tail:
  "dropWhile isWhiteSpace s = trim s @ rev (takeWhile isWhiteSpace (rev (dropWhile isWhiteSpace s)))"
  unfolding trim_def by (rule rev_dropWhile_takeWhile [symmetric])

lemma trim_decompose:
  "\<exists>pre post. s = pre @ trim s @ post \<and> list_all isWhiteSpace pre \<and> list_all isWhiteSpace post"
proof -
  let ?pre = "takeWhile isWhiteSpace s"
  let ?post = "rev (takeWhile isWhiteSpace (rev (dropWhile isWhiteSpace s)))"
  have "s = ?pre @ dropWhile isWhiteSpace s"
    by simp
  then have "s = ?pre @ trim s @ ?post"
    using trim_tail [of s] by simp
  moreover have "list_all isWhiteSpace ?pre"
    by (simp add: list_all_iff) (meson set_takeWhileD)
  moreover have "list_all isWhiteSpace ?post"
    by (simp add: list_all_iff) (meson set_takeWhileD)
  ultimately show ?thesis by blast
qed

lemma trim_last: "trim s \<noteq> [] \<Longrightarrow> \<not> isWhiteSpace (last (trim s))"
  unfolding trim_def by (simp add: last_rev hd_dropWhile)

lemma trim_hd:
  assumes "trim s \<noteq> []"
  shows "\<not> isWhiteSpace (hd (trim s))"
proof -
  have "hd (dropWhile isWhiteSpace s) = hd (trim s)"
    using assms trim_tail [of s] by (metis hd_append2)
  moreover have "dropWhile isWhiteSpace s \<noteq> []"
    using assms trim_tail [of s] by (metis append_is_Nil_conv)
  then have "\<not> isWhiteSpace (hd (dropWhile isWhiteSpace s))"
    by (rule hd_dropWhile)
  ultimately show ?thesis by simp
qed

section \<open>Invocation failures\<close>

text \<open>
  C4. When the child process fails (spawn error or non-zero exit, the rejected promise),
  \<^verbatim>\<open>executeScript\<close> throws one kind of error whose message ends with the diagnostic text;
  when it succeeds, the result is the standard output without the white space at its two
  ends. Every operation hands the error of \<^verbatim>\<open>executeScript\<close> on to its caller as it is,
  so a failed invocation is never a successful result.
\<close>

theorem invocation_failure_surfaces:
  "(execAsync (osascript_command script) = Rejected e \<longrightarrow>
      executeScript execAsync script = Inl (Error (''AppleScript execution failed: '' @ e)))
   \<and> (execAsync (osascript_command script) = Resolved out err \<longrightarrow>
      executeScript execAsync script = Inr (trim out))
   \<and> (\<exists>pre post. out = pre @ trim out @ post
         \<and> list_all isWhiteSpace pre \<and> list_all isWhiteSpace post)
   \<and> (trim out \<noteq> [] \<longrightarrow> \<not> isWhiteSpace (hd (trim out)) \<and> \<not> isWhiteSpace (last (trim out)))
   \<and> (executeScript execAsync getReminderLists_script = Inl x \<longrightarrow>
        getReminderLists execAsync = Inl x)
   \<and> (executeScript execAsync (getReminders_script inList completed) = Inl x \<longrightarrow>
        getReminders execAsync inList completed = Inl x)
   \<and> (executeScript execAsync (createReminder_script toString name listName body dueDate priority)
          = Inl x \<longrightarrow>
        createReminder execAsync toString name listName body dueDate priority = Inl x)
   \<and> (executeScript execAsync (updateReminder_script toString reminderId u) = Inl x \<longrightarrow>
        updateReminder execAsync toString reminderId u = Inl x)
   \<and> (executeScript execAsync (deleteReminder_script reminderId) = Inl x \<longrightarrow>
        deleteReminder execAsync reminderId = Inl x)
   \<and> (executeScript execAsync (searchReminders_script searchTerm) = Inl x \<longrightarrow>
        searchReminders execAsync searchTerm = Inl x)"
proof (intro conjI impI)
  show "\<exists>pre post. out = pre @ trim out @ post
         \<and> list_all isWhiteSpace pre \<and> list_all isWhiteSpace post"
    by (rule trim_decompose)
qed (simp_all add: executeScript_def getReminderLists_def getReminders_def createReminder_def
      updateReminder_def deleteReminder_def searchReminders_def trim_hd trim_last)

theorem invocation_failure_surfaces_witness:
  "executeScript (\<lambda>command. Rejected ''Error: Command failed'') ''return 1''
     = Inl (Error ''AppleScript execution failed: Error: Command failed'')
   \<and> executeScript (\<lambda>command. Resolved ''  id-1 \<newline>'' '''') ''return 1'' = Inr ''id-1''
   \<and> deleteReminder (\<lambda>command. Rejected ''Error: Command failed'') ''id-1''
     = Inl (Error ''AppleScript execution failed: Error: Command failed'')"
proof -
  note t1 = invocation_failure_surfaces [where execAsync = "\<lambda>command. Rejected ''Error: Command failed''"
      and script = "''return 1''" and e = "''Error: Command failed''" and reminderId = "''id-1''"
      and x = "Error ''AppleScript execution failed: Error: Command failed''"]
  note t2 = invocation_failure_surfaces [where execAsync = "\<lambda>command. Resolved ''  id-1 \<newline>'' ''''"
      and script = "''return 1''" and out = "''  id-1 \<newline>''" and err = "''''"]
  have a: "executeScript (\<lambda>command. Rejected ''Error: Command failed'') ''return 1''
     = Inl (Error ''AppleScript execution failed: Error: Command failed'')"
    using t1 by simp
  have b: "executeScript (\<lambda>command. Resolved ''  id-1 \<newline>'' '''') ''return 1'' = Inr (trim ''  id-1 \<newline>'')"
    using t2 by simp
  have "trim ''  id-1 \<newline>'' = ''id-1''"
    by (simp add: trim_def isWhiteSpace_def)
  with b have b': "executeScript (\<lambda>command. Resolved ''  id-1 \<newline>'' '''') ''return 1'' = Inr ''id-1''"
    by simp
  have "executeScript (\<lambda>command. Rejected ''Error: Command failed'') (deleteReminder_script ''id-1'')
     = Inl (Error ''AppleScript execution failed: Error: Command failed'')"
    by (simp add: executeScript_def)
  with t1 have c: "deleteReminder (\<lambda>command. Rejected ''Error: Command failed'') ''id-1''
     = Inl (Error ''AppleScript execution failed: Error: Command failed'')"
    by blast
  from a b' c show ?thesis by blast
qed

section \<open>Short and empty results\<close>

lemma parseInt_undefined: "parseInt None = NaN"
  by (simp add: parseInt_def parseInt_string_def isWhiteSpace_def is_digit_def digit_value_def)

lemma split_from_nonempty: "split_from sep cur s \<noteq> []"
  by (induction sep cur s rule: split_from.induct) simp_all




section \<open>The priority slot\<close>

text \<open>
  The decimal numeral of a natural number is read back by \<^verbatim>\<open>parseInt\<close> as that number,
  rounded to a double; below \<open>2\<^sup>5\<^sup>3\<close> nothing is rounded.
\<close>

lemma digit_value_char_of: "d < 10 \<Longrightarrow> digit_value (char_of (48 + d)) = Some d"
  by (simp add: digit_value_def Let_def)

lemma is_digit_facts:
  assumes "is_digit 10 c"
  shows "\<not> isWhiteSpace c" and "c \<noteq> CHR ''+''" and "c \<noteq> CHR ''-''"
    and "c \<noteq> CHR ''x''" and "c \<noteq> CHR ''X''"
  using assms
  by (auto simp: is_digit_def digit_value_def isWhiteSpace_def Let_def split: if_splits)

lemma decimal_nonempty: "decimal n \<noteq> []"
  by (subst decimal.simps) simp

lemma decimal_digits: "c \<in> set (decimal n) \<Longrightarrow> is_digit 10 c"
proof (induction n rule: decimal.induct)
  case (1 n)
  show ?case
  proof (cases "n < 10")
    case True
    with "1.prems" have "c = char_of (48 + n)"
      by (subst (asm) decimal.simps) simp
    with True show ?thesis
      by (simp add: is_digit_def digit_value_char_of)
  next
    case False
    with "1.prems" have "c \<in> set (decimal (n div 10)) \<or> c = char_of (48 + n mod 10)"
      by (subst (asm) decimal.simps) auto
    then show ?thesis
    proof
      assume "c \<in> set (decimal (n div 10))"
      with False "1.IH" show ?thesis by simp
    next
      assume "c = char_of (48 + n mod 10)"
      then show ?thesis
        by (simp add: is_digit_def digit_value_char_of)
    qed
  qed
qed

lemma digits_value_snoc:
  "digits_value R (Z @ [c]) =
     digits_value R Z * R + (case digit_value c of None \<Rightarrow> 0 | Some d \<Rightarrow> d)"
  by (simp add: digits_value_def)

lemma digits_value_decimal: "digits_value 10 (decimal n) = n"
proof (induction n rule: decimal.induct)
  case (1 n)
  show ?case
  proof (cases "n < 10")
    case True
    then show ?thesis
      by (subst decimal.simps) (simp add: digits_value_def digit_value_char_of)
  next
    case False
    with "1.IH" have "digits_value 10 (decimal (n div 10)) = n div 10" by simp
    with False show ?thesis
      by (subst decimal.simps) (simp add: digits_value_snoc digit_value_char_of)
  qed
qed

lemma takeWhile_decimal: "takeWhile (is_digit 10) (decimal n) = decimal n"
  by (simp add: decimal_digits)

lemma decimal_no_radix_prefix:
  "take 2 (decimal n) \<noteq> ''0x''" "take 2 (decimal n) \<noteq> ''0X''"
proof -
  have d: "[a, b] = take 2 (decimal n) \<Longrightarrow> is_digit 10 b" for a b
    by (metis decimal_digits in_set_takeD list.set_intros(1) list.set_intros(2))
  from this [of "CHR ''0''" "CHR ''x''"] show "take 2 (decimal n) \<noteq> ''0x''"
    using is_digit_facts(4) [of "CHR ''x''"] by auto
  from d [of "CHR ''0''" "CHR ''X''"] show "take 2 (decimal n) \<noteq> ''0X''"
    using is_digit_facts(5) [of "CHR ''X''"] by auto
qed

lemma hd_decimal: "is_digit 10 (hd (decimal n))"
  by (rule decimal_digits [of _ n]) (simp add: decimal_nonempty)

lemma parseInt_string_decimal:
  "parseInt_string (decimal n) =
     (case round_double n of None \<Rightarrow> PosInfinity | Some m \<Rightarrow> Finite (int m))"
proof -
  have "dropWhile isWhiteSpace (decimal n) = decimal n"
    using hd_decimal [of n] decimal_nonempty [of n] is_digit_facts(1)
    by (cases "decimal n") auto
  then show ?thesis
    using hd_decimal [of n] decimal_nonempty [of n] decimal_no_radix_prefix [of n]
      is_digit_facts(2,3) [of "hd (decimal n)"]
    by (simp add: parseInt_string_def Let_def takeWhile_decimal digits_value_decimal
        split: option.splits)
qed

lemma parseInt_string_minus_decimal:
  "parseInt_string (CHR ''-'' # decimal n) =
     (case round_double n of None \<Rightarrow> NegInfinity | Some m \<Rightarrow> Finite (- int m))"
  using decimal_nonempty [of n] decimal_no_radix_prefix [of n]
  by (simp add: parseInt_string_def Let_def takeWhile_decimal digits_value_decimal isWhiteSpace_def
      split: option.splits)

lemma round_double_small: "n < 2 ^ 53 \<Longrightarrow> round_double n = Some n"
  by (simp add: round_double_def)

lemma parseInt_number_text:
  assumes "\<bar>i\<bar> < 2 ^ 53"
  shows "or_zero (parseInt (Some (number_text i))) = Finite i"
proof (cases "i < 0")
  case True
  with assms have "nat (- i) < 2 ^ 53" by (simp add: nat_less_iff)
  with True show ?thesis
    by (simp add: parseInt_def number_text_def parseInt_string_minus_decimal
        round_double_small or_zero_def)
next
  case False
  with assms have "nat i < 2 ^ 53" by (simp add: nat_less_iff)
  with False show ?thesis
    by (simp add: parseInt_def number_text_def parseInt_string_decimal
        round_double_small or_zero_def)
qed

lemma parseInt_no_numeral:
  assumes "s = [] \<or> \<not> (isWhiteSpace (hd s) \<or> hd s = CHR ''+'' \<or> hd s = CHR ''-'' \<or> is_digit 10 (hd s))"
  shows "parseInt (Some s) = NaN"
proof (cases s)
  case Nil
  then show ?thesis by (simp add: parseInt_def parseInt_string_def)
next
  case (Cons c cs)
  with assms have c: "\<not> isWhiteSpace c" "c \<noteq> CHR ''+''" "c \<noteq> CHR ''-''" "\<not> is_digit 10 c"
    by auto
  have "c \<noteq> CHR ''0''"
    using c(4) by (auto simp: is_digit_def digit_value_def)
  with c Cons show ?thesis
    by (simp add: parseInt_def parseInt_string_def Let_def)
qed

lemmas parse_defs = parseInt_def parseInt_string_def Let_def isWhiteSpace_def is_digit_def
  digit_value_def digits_value_def round_double_def or_zero_def

lemma priority_examples:
  "or_zero (parseInt (Some [])) = Finite 0"
  "or_zero (parseInt (Some ''0'')) = Finite 0"
  "or_zero (parseInt (Some ''1'')) = Finite 1"
  "or_zero (parseInt (Some ''5'')) = Finite 5"
  "or_zero (parseInt (Some ''9'')) = Finite 9"
  "or_zero (parseInt (Some ''3'')) = Finite 3"
  "or_zero (parseInt (Some ''abc'')) = Finite 0"
  by (simp_all add: parse_defs)

text \<open>
  C8. The decoded priority is \<^verbatim>\<open>parseInt\<close> of the eighth slot, with zero in place of
  NaN. It is zero when the slot is absent, when it is empty and when it has no numeral to
  read (its first character is neither white space, a sign nor a digit); the decimal
  numeral of an integer of magnitude below \<open>2\<^sup>5\<^sup>3\<close> decodes to that integer. The seven
  inputs of the specification decode to 0, 0, 1, 5, 9, 3 and 0.
\<close>

theorem priority_integer_or_zero:
  "r_priority (getReminders_line line) = or_zero (parseInt (at (split line sentinel) 7))
   \<and> or_zero (parseInt None) = Finite 0
   \<and> (s = [] \<or> \<not> (isWhiteSpace (hd s) \<or> hd s = CHR ''+'' \<or> hd s = CHR ''-'' \<or> is_digit 10 (hd s))
        \<longrightarrow> or_zero (parseInt (Some s)) = Finite 0)
   \<and> (\<bar>i\<bar> < 2 ^ 53 \<longrightarrow> or_zero (parseInt (Some (number_text i))) = Finite i)
   \<and> or_zero (parseInt (Some [])) = Finite 0
   \<and> or_zero (parseInt (Some ''0'')) = Finite 0
   \<and> or_zero (parseInt (Some ''1'')) = Finite 1
   \<and> or_zero (parseInt (Some ''5'')) = Finite 5
   \<and> or_zero (parseInt (Some ''9'')) = Finite 9
   \<and> or_zero (parseInt (Some ''3'')) = Finite 3
   \<and> or_zero (parseInt (Some ''abc'')) = Finite 0
   \<and> ((\<forall>f \<in> set slots. CHR 0xA7 \<notin> set f) \<and> 7 < length slots \<longrightarrow>
        r_priority (getReminders_line (join slots sentinel)) = or_zero (parseInt (Some (slots ! 7))))"
proof (intro conjI impI)
  show "r_priority (getReminders_line line) = or_zero (parseInt (at (split line sentinel) 7))"
    by (simp add: line_defs)
  show "or_zero (parseInt None) = Finite 0"
    by (simp add: parseInt_undefined or_zero_def)
  show "or_zero (parseInt (Some s)) = Finite 0"
    if "s = [] \<or> \<not> (isWhiteSpace (hd s) \<or> hd s = CHR ''+'' \<or> hd s = CHR ''-'' \<or> is_digit 10 (hd s))"
    using parseInt_no_numeral [OF that] by (simp add: or_zero_def)
  show "or_zero (parseInt (Some (number_text i))) = Finite i" if "\<bar>i\<bar> < 2 ^ 53"
    using that by (rule parseInt_number_text)
next
  assume h: "(\<forall>f \<in> set slots. CHR 0xA7 \<notin> set f) \<and> 7 < length slots"
  then have "split (join slots sentinel) sentinel = slots"
    by (intro sentinel_split_join) auto
  with h show "r_priority (getReminders_line (join slots sentinel)) = or_zero (parseInt (Some (slots ! 7)))"
    by (simp add: line_defs at_def)
qed (rule priority_examples)+

text \<open>The theorem at the integer 5, at the text \<^verbatim>\<open>abc\<close> and at a line of eight slots.\<close>

theorem priority_integer_or_zero_witness:
  "or_zero (parseInt (Some (number_text 5))) = Finite 5
   \<and> or_zero (parseInt (Some ''abc'')) = Finite 0
   \<and> r_priority (getReminders_line
        (join [''Buy milk'', ''2 litres'', ''false'', ''Personal'', ''id1'', ''d1'', ''d2'', ''9''] sentinel))
      = Finite 9"
proof -
  let ?slots = "[''Buy milk'', ''2 litres'', ''false'', ''Personal'', ''id1'', ''d1'', ''d2'', ''9'']"
  note t = priority_integer_or_zero [where i = 5 and s = "''abc''" and slots = ?slots and line = "[]"]
  have h1: "\<bar>5 :: int\<bar> < 2 ^ 53"
    by simp
  have h2: "(\<forall>f \<in> set ?slots. CHR 0xA7 \<notin> set f) \<and> 7 < length ?slots"
    by simp
  have v: "?slots ! 7 = ''9''"
    by simp
  have a: "or_zero (parseInt (Some (number_text 5))) = Finite 5"
    using t h1 by blast
  have b: "or_zero (parseInt (Some ''abc'')) = Finite 0"
    using t by blast
  have "r_priority (getReminders_line (join ?slots sentinel)) = or_zero (parseInt (Some (?slots ! 7)))"
    using t h2 by blast
  also have "\<dots> = Finite 9"
    unfolding v using t by blast
  finally show ?thesis
    using a b by blast
qed

section \<open>Pairing list names with list ids\<close>

lemma split_from_two:
  "sep \<noteq> [] \<Longrightarrow> sublist sep s \<Longrightarrow> 2 \<le> length (split_from sep cur s)"
proof (induction s arbitrary: cur)
  case Nil
  then show ?case by simp
next
  case (Cons a s)
  show ?case
  proof (cases "take (length sep) (a # s) = sep")
    case True
    have "split_from sep [] (drop (length sep) (a # s)) \<noteq> []"
      by (rule split_from_nonempty)
    then have "1 \<le> length (split_from sep [] (drop (length sep) (a # s)))"
      by (simp add: Suc_le_eq)
    with True Cons.prems(1) show ?thesis by simp
  next
    case False
    then have "\<not> prefix sep (a # s)"
      by (metis append_eq_conv_conj prefixE)
    with Cons.prems(2) have "sublist sep s"
      by (simp add: sublist_Cons_right)
    with False Cons.IH [of "cur @ [a]"] Cons.prems(1) show ?thesis by simp
  qed
qed

lemma map_enumerate:
  "map (\<lambda>(i, x). f i x) (enumerate 0 xs) = map (\<lambda>i. f i (xs ! i)) [0..<length xs]"
  by (rule nth_equalityI) (simp_all add: nth_enumerate_eq)

lemma set_join: "set (join xs sep) \<subseteq> set sep \<union> \<Union> (set ` set xs)"
  by (induction xs sep rule: join.induct) auto

lemma decode_parts:
  assumes "split result ''|||'' = namesStr # idsStr # rest"
  shows "getReminderLists_decode result =
     Inr (map (\<lambda>i. \<lparr> l_name = trim (split namesStr '', '' ! i),
                      l_id = (if i < length (split idsStr '', '')
                              then trim (split idsStr '', '' ! i) else []) \<rparr>)
              [0..<length (split namesStr '', '')])"
proof -
  have "or_empty (map_option trim (at ids i)) = (if i < length ids then trim (ids ! i) else [])"
    for ids i
    by (simp add: at_def or_empty_def)
  then have "getReminderLists_decode result =
     Inr (map (\<lambda>(i, x). \<lparr> l_name = trim x,
                      l_id = (if i < length (split idsStr '', '')
                              then trim (split idsStr '', '' ! i) else []) \<rparr>)
              (enumerate 0 (split namesStr '', '')))"
    using assms by (simp add: getReminderLists_decode_def Let_def at_def)
  then show ?thesis
    by (simp only: map_enumerate)
qed

lemma decode_no_separator:
  assumes "\<not> sublist ''|||'' result"
  shows "getReminderLists_decode result = Inl TypeError"
proof -
  have "split result ''|||'' = [result]"
    using split_from_none [OF assms, of "[]"] by (simp add: split_def)
  then show ?thesis
    by (simp add: getReminderLists_decode_def Let_def at_def)
qed

lemma decode_separator:
  assumes "sublist ''|||'' result"
  shows "\<exists>namesStr idsStr rest. split result ''|||'' = namesStr # idsStr # rest"
proof -
  have "2 \<le> length (split result ''|||'')"
    using split_from_two [OF _ assms, of "[]"] by (simp add: split_def)
  then show ?thesis
    by (cases "split result ''|||''" rule: list.exhaust; cases "tl (split result ''|||'')") auto
qed

lemma decode_joined:
  assumes ns: "\<forall>n \<in> set names. CHR '','' \<notin> set n \<and> CHR ''|'' \<notin> set n" "names \<noteq> []"
    and js: "\<forall>i \<in> set ids. CHR '','' \<notin> set i \<and> CHR ''|'' \<notin> set i" "ids \<noteq> []"
  shows "getReminderLists_decode (join names '', '' @ ''|||'' @ join ids '', '') =
     Inr (map (\<lambda>i. \<lparr> l_name = trim (names ! i),
                      l_id = (if i < length ids then trim (ids ! i) else []) \<rparr>)
              [0..<length names])"
proof -
  have a: "CHR ''|'' \<notin> set (join names '', '')" "CHR ''|'' \<notin> set (join ids '', '')"
    using set_join [of names "'', ''"] set_join [of ids "'', ''"] ns js by auto
  have "split (join [join names '', '', join ids '', ''] ''|||'') ''|||''
      = [join names '', '', join ids '', '']"
    using a by (intro split_join) simp_all
  then have 1: "split (join names '', '' @ ''|||'' @ join ids '', '') ''|||''
      = join names '', '' # join ids '', '' # []"
    by simp
  have 2: "split (join names '', '') '', '' = names"
    using ns by (intro split_join) simp_all
  have 3: "split (join ids '', '') '', '' = ids"
    using js by (intro split_join) simp_all
  show ?thesis
    using decode_parts [OF 1] by (simp only: 2 3)
qed

lemmas decode_eval = getReminderLists_decode_def Let_def split_def at_def
      trim_def isWhiteSpace_def or_empty_def

lemma decode_example:
  "getReminderLists_decode ''A, B, C|||id1, id2, id3'' =
     Inr [\<lparr>l_name = ''A'', l_id = ''id1''\<rparr>, \<lparr>l_name = ''B'', l_id = ''id2''\<rparr>,
          \<lparr>l_name = ''C'', l_id = ''id3''\<rparr>]"
  by (simp add: decode_eval)

text \<open>
  Two names and one id: the arrays have different lengths after the split, and the
  decoder returns two lists, the second with the empty id.
\<close>

theorem list_lengths_counterexample:
  "length (split ''A, B'' '', '') = 2 \<and> length (split ''id1'' '', '') = 1
   \<and> getReminderLists_decode ''A, B|||id1'' =
       Inr [\<lparr>l_name = ''A'', l_id = ''id1''\<rparr>, \<lparr>l_name = ''B'', l_id = []\<rparr>]"
  by (simp add: decode_eval)

text \<open>
  C3, as the code has it. The decoder splits the result at the group separator, splits
  both parts at comma and space, and pairs by position: the record at index \<open>i\<close> has
  the trimmed name at \<open>i\<close> and the trimmed id at \<open>i\<close>. The lengths are never
  compared: a name with no id at its index gets the empty id, and ids beyond the names are
  dropped. Decoding fails, with a \<^verbatim>\<open>TypeError\<close>, exactly when the result holds no group
  separator. For names and ids free of commas and bars, each group joined by comma and
  space and the two groups by the separator, the records are the names and ids one by one;
  the three lists of the specification decode to their three pairs.
\<close>

theorem list_pairing_by_position:
  "(\<not> sublist ''|||'' result \<longrightarrow> getReminderLists_decode result = Inl TypeError)
   \<and> (sublist ''|||'' result \<longrightarrow> (\<exists>lists. getReminderLists_decode result = Inr lists))
   \<and> (split result ''|||'' = namesStr # idsStr # rest \<longrightarrow>
        getReminderLists_decode result =
          Inr (map (\<lambda>i. \<lparr> l_name = trim (split namesStr '', '' ! i),
                           l_id = (if i < length (split idsStr '', '')
                                   then trim (split idsStr '', '' ! i) else []) \<rparr>)
                   [0..<length (split namesStr '', '')]))
   \<and> ((\<forall>n \<in> set names. CHR '','' \<notin> set n \<and> CHR ''|'' \<notin> set n) \<and> names \<noteq> []
        \<and> (\<forall>i \<in> set ids. CHR '','' \<notin> set i \<and> CHR ''|'' \<notin> set i) \<and> ids \<noteq> [] \<longrightarrow>
        getReminderLists_decode (join names '', '' @ ''|||'' @ join ids '', '') =
          Inr (map (\<lambda>i. \<lparr> l_name = trim (names ! i),
                           l_id = (if i < length ids then trim (ids ! i) else []) \<rparr>)
                   [0..<length names]))
   \<and> getReminderLists_decode ''A, B, C|||id1, id2, id3'' =
       Inr [\<lparr>l_name = ''A'', l_id = ''id1''\<rparr>, \<lparr>l_name = ''B'', l_id = ''id2''\<rparr>,
            \<lparr>l_name = ''C'', l_id = ''id3''\<rparr>]"
proof (intro conjI impI)
  show "getReminderLists_decode result = Inl TypeError" if "\<not> sublist ''|||'' result"
    using that by (rule decode_no_separator)
  show "\<exists>lists. getReminderLists_decode result = Inr lists" if "sublist ''|||'' result"
    using decode_separator [OF that] decode_parts by blast
  show "getReminderLists_decode result =
          Inr (map (\<lambda>i. \<lparr> l_name = trim (split namesStr '', '' ! i),
                           l_id = (if i < length (split idsStr '', '')
                                   then trim (split idsStr '', '' ! i) else []) \<rparr>)
                   [0..<length (split namesStr '', '')])"
    if "split result ''|||'' = namesStr # idsStr # rest"
    using that by (rule decode_parts)
  show "getReminderLists_decode (join names '', '' @ ''|||'' @ join ids '', '') =
          Inr (map (\<lambda>i. \<lparr> l_name = trim (names ! i),
                           l_id = (if i < length ids then trim (ids ! i) else []) \<rparr>)
                   [0..<length names])"
    if "(\<forall>n \<in> set names. CHR '','' \<notin> set n \<and> CHR ''|'' \<notin> set n) \<and> names \<noteq> []
        \<and> (\<forall>i \<in> set ids. CHR '','' \<notin> set i \<and> CHR ''|'' \<notin> set i) \<and> ids \<noteq> []"
    using that by (intro decode_joined) simp_all
  show "getReminderLists_decode ''A, B, C|||id1, id2, id3'' =
       Inr [\<lparr>l_name = ''A'', l_id = ''id1''\<rparr>, \<lparr>l_name = ''B'', l_id = ''id2''\<rparr>,
            \<lparr>l_name = ''C'', l_id = ''id3''\<rparr>]"
    by (rule decode_example)
qed

text \<open>The theorem at three names with two ids, and at a result with no separator.\<close>

theorem list_pairing_by_position_witness:
  "getReminderLists_decode (join [''Work'', ''Home'', ''Trips''] '', '' @ ''|||'' @ join [''x1'', ''x2''] '', '')
     = Inr [\<lparr>l_name = ''Work'', l_id = ''x1''\<rparr>, \<lparr>l_name = ''Home'', l_id = ''x2''\<rparr>,
            \<lparr>l_name = ''Trips'', l_id = []\<rparr>]
   \<and> \<not> sublist ''|||'' ''Work, Home''
   \<and> getReminderLists_decode ''Work, Home'' = Inl TypeError"
proof -
  note t = list_pairing_by_position [where names = "[''Work'', ''Home'', ''Trips'']"
      and ids = "[''x1'', ''x2'']" and result = "''Work, Home''"]
  have h: "(\<forall>n \<in> set [''Work'', ''Home'', ''Trips'']. CHR '','' \<notin> set n \<and> CHR ''|'' \<notin> set n)
      \<and> [''Work'', ''Home'', ''Trips''] \<noteq> []
      \<and> (\<forall>i \<in> set [''x1'', ''x2'']. CHR '','' \<notin> set i \<and> CHR ''|'' \<notin> set i)
      \<and> [''x1'', ''x2''] \<noteq> []"
    by simp
  have n: "\<not> sublist ''|||'' ''Work, Home''"
    by (simp add: sublist_Cons_right)
  have "getReminderLists_decode (join [''Work'', ''Home'', ''Trips''] '', '' @ ''|||'' @ join [''x1'', ''x2''] '', '')
     = Inr (map (\<lambda>i. \<lparr> l_name = trim ([''Work'', ''Home'', ''Trips''] ! i),
                           l_id = (if i < length [''x1'', ''x2''] then trim ([''x1'', ''x2''] ! i) else []) \<rparr>)
                   [0..<length [''Work'', ''Home'', ''Trips'']])"
    using t h by blast
  also have "\<dots> = Inr [\<lparr>l_name = ''Work'', l_id = ''x1''\<rparr>, \<lparr>l_name = ''Home'', l_id = ''x2''\<rparr>,
            \<lparr>l_name = ''Trips'', l_id = []\<rparr>]"
    by (simp add: trim_def isWhiteSpace_def upt_rec [of 0])
  finally show ?thesis
    using t n by blast
qed

section \<open>Texts inside a script\<close>

text \<open>A script holds a text when the text is one of the pieces it is put together from.\<close>

lemma sublist_right: "sublist v ys \<Longrightarrow> sublist v (xs @ ys)"
  by (metis append.assoc sublist_def)

lemma sublist_left: "sublist v (v @ ys)"
  by simp

lemma sublist_three: "sublist (p @ a @ q) (p @ a @ q @ rest)"
  by (metis append.assoc sublist_append_rightI)

lemma sublist_join: "x \<in> set xs \<Longrightarrow> sublist x (join xs sep)"
  by (induction xs sep rule: join.induct) (auto intro: sublist_right)

lemma create_verbatim:
  "sublist (bodyScript body) (createReminder_script toString name listName body dueDate priority)"
  "sublist (dueDateScript dueDate)
     (createReminder_script toString name listName body dueDate priority)"
  "sublist (priorityScript toString priority)
     (createReminder_script toString name listName body dueDate priority)"
  unfolding createReminder_script_def
  by (intro sublist_three sublist_left sublist_right)+

lemma update_verbatim:
  "sublist (join (updateCommands toString u) ''\<newline>        '')
     (updateReminder_script toString reminderId u)"
  unfolding updateReminder_script_def
  by (intro sublist_three sublist_left sublist_right)+

lemma update_clause_verbatim:
  assumes "clause \<in> set (updateCommands toString u)"
  shows "sublist clause (updateReminder_script toString reminderId u)"
  using sublist_join [OF assms] update_verbatim sublist_order.order_trans by blast

section \<open>Quotes in a value\<close>

text \<open>
  C1. Here the code does not do what the claim says. The reminder name \<^verbatim>\<open>it's\<close> gives
  the command below: the single quote of the name is still there, behind a backslash, so
  the command has three single quotes, and between the single quotes of a shell word a
  backslash is an ordinary character. The reminder name \<^verbatim>\<open>a"b\<close> gives a command with no
  backslash at all: the double quote of the name is not escaped, and the command has an
  odd number of double quotes.
\<close>

theorem quotes_reach_the_command:
  "osascript_command (createReminder_script (\<lambda>n. []) ''it's'' ''Personal'' None None None) =
     ''osascript -e '' @ [CHR 0x27] @
     ''\<newline>'' @
     ''      tell application \"Reminders\"\<newline>'' @
     ''        set targetList to list \"Personal\"\<newline>'' @
     ''        set newReminder to make new reminder in targetList\<newline>'' @
     ''        set name of newReminder to \"it'' @ [CHR 0x5C, CHR 0x27] @ ''s\"\<newline>'' @
     ''        \<newline>'' @
     ''        \<newline>'' @
     ''        \<newline>'' @
     ''        return id of newReminder\<newline>'' @
     ''      end tell\<newline>'' @
     ''    '' @ [CHR 0x27]
   \<and> count_list (osascript_command
          (createReminder_script (\<lambda>n. []) ''it's'' ''Personal'' None None None)) (CHR 0x27) = 3
   \<and> CHR 0x22 \<in> set ''a\"b''
   \<and> CHR 0x5C \<notin> set (osascript_command
          (createReminder_script (\<lambda>n. []) ''a\"b'' ''Personal'' None None None))
   \<and> odd (count_list (osascript_command
          (createReminder_script (\<lambda>n. []) ''a\"b'' ''Personal'' None None None)) (CHR 0x22))"
  by (simp add: osascript_command_def createReminder_script_def bodyScript_def dueDateScript_def
      priorityScript_def)

section \<open>The optional clauses of createReminder\<close>

lemma buy_milk_script:
  "createReminder_script toString ''Buy milk'' ''Personal'' None None None =
     ''\<newline>'' @
     ''      tell application \"Reminders\"\<newline>'' @
     ''        set targetList to list \"Personal\"\<newline>'' @
     ''        set newReminder to make new reminder in targetList\<newline>'' @
     ''        set name of newReminder to \"Buy milk\"\<newline>'' @
     ''        \<newline>'' @
     ''        \<newline>'' @
     ''        \<newline>'' @
     ''        return id of newReminder\<newline>'' @
     ''      end tell\<newline>'' @
     ''    ''"
  by (simp add: createReminder_script_def bodyScript_def dueDateScript_def priorityScript_def)

lemma buy_milk_no_clause:
  "\<not> sublist ''set body'' (createReminder_script toString ''Buy milk'' ''Personal'' None None None)"
  "\<not> sublist ''set due date'' (createReminder_script toString ''Buy milk'' ''Personal'' None None None)"
  "\<not> sublist ''set priority'' (createReminder_script toString ''Buy milk'' ''Personal'' None None None)"
  unfolding buy_milk_script by (simp_all add: sublist_Cons_right)

text \<open>
  The priority zero is supplied, and the script is the one built without a priority: it
  has no priority clause.
\<close>

theorem zero_priority_counterexample:
  "priorityScript (\<lambda>n. ''0'') (Some (Finite 0)) = []
   \<and> createReminder_script (\<lambda>n. ''0'') ''Buy milk'' ''Personal'' None None (Some (Finite 0))
       = createReminder_script (\<lambda>n. ''0'') ''Buy milk'' ''Personal'' None None None"
  by (simp add: createReminder_script_def priorityScript_def falsy_def)

text \<open>
  C5, as the code has it. The script of \<^verbatim>\<open>createReminder\<close> has a body clause exactly
  when the body is supplied and not empty, a due date clause exactly when the due date is
  supplied and not empty, and a priority clause exactly when the priority is supplied and
  is neither zero nor NaN; a clause that is there assigns the value as it was given, the
  priority as the conversion of numbers to text prints it. The script is the template with
  the three clauses on the three lines behind the name, in this order. The script for
  \<^verbatim>\<open>createReminder("Buy milk", "Personal")\<close> has three empty lines in place of the
  clauses and holds none of their words. The operation returns the standard output of the
  resolved invocation, trimmed: the id as bare text.
\<close>

theorem create_clauses_when_truthy:
  "(bodyScript body \<noteq> [] \<longleftrightarrow> body \<noteq> None \<and> body \<noteq> Some [])
   \<and> (dueDateScript dueDate \<noteq> [] \<longleftrightarrow> dueDate \<noteq> None \<and> dueDate \<noteq> Some [])
   \<and> (priorityScript toString priority \<noteq> [] \<longleftrightarrow>
        priority \<noteq> None \<and> priority \<noteq> Some NaN \<and> priority \<noteq> Some (Finite 0))
   \<and> (b \<noteq> [] \<longrightarrow> bodyScript (Some b) = ''set body of newReminder to \"'' @ b @ ''\"'')
   \<and> (d \<noteq> [] \<longrightarrow> dueDateScript (Some d) = ''set due date of newReminder to date \"'' @ d @ ''\"'')
   \<and> (p \<noteq> NaN \<and> p \<noteq> Finite 0 \<longrightarrow>
        priorityScript toString (Some p) = ''set priority of newReminder to '' @ toString p)
   \<and> createReminder_script toString name listName body dueDate priority =
       ''\<newline>'' @
       ''      tell application \"Reminders\"\<newline>'' @
       ''        set targetList to list \"'' @ listName @ ''\"\<newline>'' @
       ''        set newReminder to make new reminder in targetList\<newline>'' @
       ''        set name of newReminder to \"'' @ name @ ''\"\<newline>'' @
       ''        '' @ bodyScript body @ ''\<newline>'' @
       ''        '' @ dueDateScript dueDate @ ''\<newline>'' @
       ''        '' @ priorityScript toString priority @ ''\<newline>'' @
       ''        return id of newReminder\<newline>'' @
       ''      end tell\<newline>'' @
       ''    ''
   \<and> sublist (bodyScript body) (createReminder_script toString name listName body dueDate priority)
   \<and> sublist (dueDateScript dueDate)
        (createReminder_script toString name listName body dueDate priority)
   \<and> sublist (priorityScript toString priority)
        (createReminder_script toString name listName body dueDate priority)
   \<and> createReminder_script toString ''Buy milk'' ''Personal'' None None None =
       ''\<newline>'' @
       ''      tell application \"Reminders\"\<newline>'' @
       ''        set targetList to list \"Personal\"\<newline>'' @
       ''        set newReminder to make new reminder in targetList\<newline>'' @
       ''        set name of newReminder to \"Buy milk\"\<newline>'' @
       ''        \<newline>'' @
       ''        \<newline>'' @
       ''        \<newline>'' @
       ''        return id of newReminder\<newline>'' @
       ''      end tell\<newline>'' @
       ''    ''
   \<and> \<not> sublist ''set body'' (createReminder_script toString ''Buy milk'' ''Personal'' None None None)
   \<and> \<not> sublist ''set due date'' (createReminder_script toString ''Buy milk'' ''Personal'' None None None)
   \<and> \<not> sublist ''set priority'' (createReminder_script toString ''Buy milk'' ''Personal'' None None None)
   \<and> (execAsync (osascript_command
          (createReminder_script toString name listName body dueDate priority)) = Resolved out err \<longrightarrow>
        createReminder execAsync toString name listName body dueDate priority = Inr (trim out))"
proof (intro conjI impI)
  show "bodyScript body \<noteq> [] \<longleftrightarrow> body \<noteq> None \<and> body \<noteq> Some []"
    by (simp add: bodyScript_def split: option.splits)
  show "dueDateScript dueDate \<noteq> [] \<longleftrightarrow> dueDate \<noteq> None \<and> dueDate \<noteq> Some []"
    by (simp add: dueDateScript_def split: option.splits)
  show "priorityScript toString priority \<noteq> [] \<longleftrightarrow>
        priority \<noteq> None \<and> priority \<noteq> Some NaN \<and> priority \<noteq> Some (Finite 0)"
    by (simp add: priorityScript_def falsy_def split: option.splits)
  show "bodyScript (Some b) = ''set body of newReminder to \"'' @ b @ ''\"''" if "b \<noteq> []"
    using that by (simp add: bodyScript_def)
  show "dueDateScript (Some d) = ''set due date of newReminder to date \"'' @ d @ ''\"''" if "d \<noteq> []"
    using that by (simp add: dueDateScript_def)
  show "priorityScript toString (Some p) = ''set priority of newReminder to '' @ toString p"
    if "p \<noteq> NaN \<and> p \<noteq> Finite 0"
    using that by (simp add: priorityScript_def falsy_def)
  show "createReminder_script toString name listName body dueDate priority =
       ''\<newline>'' @
       ''      tell application \"Reminders\"\<newline>'' @
       ''        set targetList to list \"'' @ listName @ ''\"\<newline>'' @
       ''        set newReminder to make new reminder in targetList\<newline>'' @
       ''        set name of newReminder to \"'' @ name @ ''\"\<newline>'' @
       ''        '' @ bodyScript body @ ''\<newline>'' @
       ''        '' @ dueDateScript dueDate @ ''\<newline>'' @
       ''        '' @ priorityScript toString priority @ ''\<newline>'' @
       ''        return id of newReminder\<newline>'' @
       ''      end tell\<newline>'' @
       ''    ''"
    by (simp add: createReminder_script_def)
  show "createReminder execAsync toString name listName body dueDate priority = Inr (trim out)"
    if "execAsync (osascript_command
          (createReminder_script toString name listName body dueDate priority)) = Resolved out err"
    using that by (simp add: createReminder_def executeScript_def)
qed (rule create_verbatim buy_milk_script buy_milk_no_clause)+

text \<open>The theorem at a body, a due date and the priority 5, printed as \<^verbatim>\<open>5\<close>, and at
  an invocation that prints an id.\<close>

theorem create_clauses_when_truthy_witness:
  "bodyScript (Some ''2 litres'') = ''set body of newReminder to \"2 litres\"''
   \<and> dueDateScript (Some ''12/25/2025 9:00 AM'')
       = ''set due date of newReminder to date \"12/25/2025 9:00 AM\"''
   \<and> priorityScript (\<lambda>n. ''5'') (Some (Finite 5)) = ''set priority of newReminder to 5''
   \<and> createReminder (\<lambda>command. Resolved ''x-apple-reminder://ABC \<newline>'' []) (\<lambda>n. ''5'')
        ''Buy milk'' ''Personal'' None None None = Inr ''x-apple-reminder://ABC''"
proof -
  note t = create_clauses_when_truthy [where b = "''2 litres''" and d = "''12/25/2025 9:00 AM''"
      and p = "Finite 5" and toString = "\<lambda>n. ''5''"
      and execAsync = "\<lambda>command. Resolved ''x-apple-reminder://ABC \<newline>'' []"
      and name = "''Buy milk''" and listName = "''Personal''" and body = None and dueDate = None
      and priority = None and out = "''x-apple-reminder://ABC \<newline>''" and err = "[]"]
  have a: "bodyScript (Some ''2 litres'') = ''set body of newReminder to \"'' @ ''2 litres'' @ ''\"''"
    using t by blast
  have b: "dueDateScript (Some ''12/25/2025 9:00 AM'')
       = ''set due date of newReminder to date \"'' @ ''12/25/2025 9:00 AM'' @ ''\"''"
    using t by blast
  have "Finite 5 \<noteq> NaN \<and> Finite 5 \<noteq> Finite 0"
    by simp
  then have c: "priorityScript (\<lambda>n. ''5'') (Some (Finite 5)) = ''set priority of newReminder to '' @ ''5''"
    using t by blast
  have "createReminder (\<lambda>command. Resolved ''x-apple-reminder://ABC \<newline>'' []) (\<lambda>n. ''5'')
        ''Buy milk'' ''Personal'' None None None = Inr (trim ''x-apple-reminder://ABC \<newline>'')"
    using t by blast
  moreover have "trim ''x-apple-reminder://ABC \<newline>'' = ''x-apple-reminder://ABC''"
    by (simp add: trim_def isWhiteSpace_def)
  ultimately show ?thesis
    using a b c by simp
qed

section \<open>The clauses of updateReminder\<close>

lemma assigned_field_clauses:
  "assigned_field (''set name of targetReminder to \"'' @ n @ ''\"'') = Some Name"
  "assigned_field (''set body of targetReminder to \"'' @ b @ ''\"'') = Some Body"
  "assigned_field (''set completed of targetReminder to '' @ t) = Some Completed"
  "assigned_field (''set due date of targetReminder to date \"'' @ d @ ''\"'') = Some DueDate"
  "assigned_field (''set priority of targetReminder to '' @ t) = Some Priority"
  by (simp_all add: assigned_field_def)

text \<open>
  An update whose name is the empty string: the field is present, and the command has no
  clause for it.
\<close>

theorem empty_name_counterexample:
  "filter (present \<lparr>u_name = Some [], u_body = None, u_completed = None, u_dueDate = None,
                     u_priority = None\<rparr>) update_fields = [Name]
   \<and> updateCommands (\<lambda>n. ''0'') \<lparr>u_name = Some [], u_body = None, u_completed = None,
                      u_dueDate = None, u_priority = None\<rparr> = []
   \<and> updateReminder_script (\<lambda>n. ''0'') ''id1'' \<lparr>u_name = Some [], u_body = None,
                      u_completed = None, u_dueDate = None, u_priority = None\<rparr> =
       ''\<newline>'' @
       ''      tell application \"Reminders\"\<newline>'' @
       ''        set targetReminder to reminder id \"id1\"\<newline>'' @
       ''        \<newline>'' @
       ''      end tell\<newline>'' @
       ''    ''"
  by (simp add: update_fields_def updateCommands_def updateReminder_script_def)

text \<open>
  C2, as the code has it. The command of \<^verbatim>\<open>updateReminder\<close> is the template with the
  clauses of \<^verbatim>\<open>updateCommands\<close> joined in their order, each on a line of its own, and
  these clauses assign, in the order name, body, completed, due date, priority and each at
  most once, exactly these fields: the name and the due date when they are supplied and
  not empty, and the body, the completed flag and the priority when they are supplied. With
  all five supplied the command has the five clauses in this order and nothing else between
  the line of the id and the end. For \<^verbatim>\<open>{completed: true}\<close> the only clause is the one
  for completed.
\<close>

theorem update_clauses_in_order:
  "map assigned_field (updateCommands toString u)
     = map Some (filter (truthy_or_present u) update_fields)
   \<and> updateReminder_script toString reminderId u =
       ''\<newline>'' @
       ''      tell application \"Reminders\"\<newline>'' @
       ''        set targetReminder to reminder id \"'' @ reminderId @ ''\"\<newline>'' @
       ''        '' @ join (updateCommands toString u) ''\<newline>        '' @ ''\<newline>'' @
       ''      end tell\<newline>'' @
       ''    ''
   \<and> (clause \<in> set (updateCommands toString u) \<longrightarrow>
        sublist clause (updateReminder_script toString reminderId u))
   \<and> (u_name u = Some n \<and> n \<noteq> [] \<and> u_body u = Some b \<and> u_completed u = Some c
        \<and> u_dueDate u = Some d \<and> d \<noteq> [] \<and> u_priority u = Some p \<longrightarrow>
        updateReminder_script toString reminderId u =
          ''\<newline>'' @
          ''      tell application \"Reminders\"\<newline>'' @
          ''        set targetReminder to reminder id \"'' @ reminderId @ ''\"\<newline>'' @
          ''        set name of targetReminder to \"'' @ n @ ''\"\<newline>'' @
          ''        set body of targetReminder to \"'' @ b @ ''\"\<newline>'' @
          ''        set completed of targetReminder to '' @ boolean_text c @ ''\<newline>'' @
          ''        set due date of targetReminder to date \"'' @ d @ ''\"\<newline>'' @
          ''        set priority of targetReminder to '' @ toString p @ ''\<newline>'' @
          ''      end tell\<newline>'' @
          ''    '')
   \<and> updateCommands toString \<lparr>u_name = None, u_body = None, u_completed = Some True,
                      u_dueDate = None, u_priority = None\<rparr>
       = [''set completed of targetReminder to true'']
   \<and> updateReminder_script toString ''id1'' \<lparr>u_name = None, u_body = None, u_completed = Some True,
                      u_dueDate = None, u_priority = None\<rparr> =
       ''\<newline>'' @
       ''      tell application \"Reminders\"\<newline>'' @
       ''        set targetReminder to reminder id \"id1\"\<newline>'' @
       ''        set completed of targetReminder to true\<newline>'' @
       ''      end tell\<newline>'' @
       ''    ''"
proof (intro conjI impI)
  show "sublist clause (updateReminder_script toString reminderId u)"
    if "clause \<in> set (updateCommands toString u)"
    using that by (rule update_clause_verbatim)
  show "map assigned_field (updateCommands toString u)
     = map Some (filter (truthy_or_present u) update_fields)"
    by (simp add: updateCommands_def update_fields_def assigned_field_clauses [simplified]
        split: option.splits)
  show "updateReminder_script toString reminderId u =
       ''\<newline>'' @
       ''      tell application \"Reminders\"\<newline>'' @
       ''        set targetReminder to reminder id \"'' @ reminderId @ ''\"\<newline>'' @
       ''        '' @ join (updateCommands toString u) ''\<newline>        '' @ ''\<newline>'' @
       ''      end tell\<newline>'' @
       ''    ''"
    by (simp add: updateReminder_script_def)
  show "updateReminder_script toString reminderId u =
          ''\<newline>'' @
          ''      tell application \"Reminders\"\<newline>'' @
          ''        set targetReminder to reminder id \"'' @ reminderId @ ''\"\<newline>'' @
          ''        set name of targetReminder to \"'' @ n @ ''\"\<newline>'' @
          ''        set body of targetReminder to \"'' @ b @ ''\"\<newline>'' @
          ''        set completed of targetReminder to '' @ boolean_text c @ ''\<newline>'' @
          ''        set due date of targetReminder to date \"'' @ d @ ''\"\<newline>'' @
          ''        set priority of targetReminder to '' @ toString p @ ''\<newline>'' @
          ''      end tell\<newline>'' @
          ''    ''"
    if "u_name u = Some n \<and> n \<noteq> [] \<and> u_body u = Some b \<and> u_completed u = Some c
        \<and> u_dueDate u = Some d \<and> d \<noteq> [] \<and> u_priority u = Some p"
    using that by (simp add: updateReminder_script_def updateCommands_def)
  show "updateCommands toString \<lparr>u_name = None, u_body = None, u_completed = Some True,
                      u_dueDate = None, u_priority = None\<rparr>
       = [''set completed of targetReminder to true'']"
    by (simp add: updateCommands_def boolean_text_def)
  then show "updateReminder_script toString ''id1'' \<lparr>u_name = None, u_body = None,
                      u_completed = Some True, u_dueDate = None, u_priority = None\<rparr> =
       ''\<newline>'' @
       ''      tell application \"Reminders\"\<newline>'' @
       ''        set targetReminder to reminder id \"id1\"\<newline>'' @
       ''        set completed of targetReminder to true\<newline>'' @
       ''      end tell\<newline>'' @
       ''    ''"
    by (simp add: updateReminder_script_def)
qed

text \<open>The theorem at an update with a name, an empty body, an empty due date and the
  priority zero, and at an update with all five fields, the priority 1 printed as
  \<^verbatim>\<open>1\<close>.\<close>

theorem update_clauses_in_order_witness:
  "map assigned_field
     (updateCommands (\<lambda>n. ''0'')
        \<lparr>u_name = Some ''Buy oat milk'', u_body = Some [], u_completed = None,
         u_dueDate = Some [], u_priority = Some (Finite 0)\<rparr>)
   = [Some Name, Some Body, Some Priority]
   \<and> updateReminder_script (\<lambda>n. ''1'') ''id1''
        \<lparr>u_name = Some ''Buy oat milk'', u_body = Some ''2 litres'', u_completed = Some False,
         u_dueDate = Some ''12/25/2025 9:00 AM'', u_priority = Some (Finite 1)\<rparr> =
       ''\<newline>'' @
       ''      tell application \"Reminders\"\<newline>'' @
       ''        set targetReminder to reminder id \"id1\"\<newline>'' @
       ''        set name of targetReminder to \"Buy oat milk\"\<newline>'' @
       ''        set body of targetReminder to \"2 litres\"\<newline>'' @
       ''        set completed of targetReminder to false\<newline>'' @
       ''        set due date of targetReminder to date \"12/25/2025 9:00 AM\"\<newline>'' @
       ''        set priority of targetReminder to 1\<newline>'' @
       ''      end tell\<newline>'' @
       ''    ''"
proof -
  note t1 = update_clauses_in_order [where toString = "\<lambda>n. ''0''"
      and u = "\<lparr>u_name = Some ''Buy oat milk'', u_body = Some [], u_completed = None,
                u_dueDate = Some [], u_priority = Some (Finite 0)\<rparr>"]
  note t2 = update_clauses_in_order [where toString = "\<lambda>n. ''1''" and reminderId = "''id1''"
      and u = "\<lparr>u_name = Some ''Buy oat milk'', u_body = Some ''2 litres'',
                u_completed = Some False, u_dueDate = Some ''12/25/2025 9:00 AM'',
                u_priority = Some (Finite 1)\<rparr>"
      and n = "''Buy oat milk''" and b = "''2 litres''" and c = False
      and d = "''12/25/2025 9:00 AM''" and p = "Finite 1" and clause = "[]",
      THEN conjunct2, THEN conjunct2, THEN conjunct2, THEN conjunct1, rule_format]
  have a: "map assigned_field
     (updateCommands (\<lambda>n. ''0'')
        \<lparr>u_name = Some ''Buy oat milk'', u_body = Some [], u_completed = None,
         u_dueDate = Some [], u_priority = Some (Finite 0)\<rparr>)
   = [Some Name, Some Body, Some Priority]"
    using t1 by (simp add: update_fields_def)
  have b: "updateReminder_script (\<lambda>n. ''1'') ''id1''
        \<lparr>u_name = Some ''Buy oat milk'', u_body = Some ''2 litres'', u_completed = Some False,
         u_dueDate = Some ''12/25/2025 9:00 AM'', u_priority = Some (Finite 1)\<rparr> =
          ''\<newline>'' @
          ''      tell application \"Reminders\"\<newline>'' @
          ''        set targetReminder to reminder id \"'' @ ''id1'' @ ''\"\<newline>'' @
          ''        set name of targetReminder to \"'' @ ''Buy oat milk'' @ ''\"\<newline>'' @
          ''        set body of targetReminder to \"'' @ ''2 litres'' @ ''\"\<newline>'' @
          ''        set completed of targetReminder to '' @ boolean_text False @ ''\<newline>'' @
          ''        set due date of targetReminder to date \"'' @ ''12/25/2025 9:00 AM'' @ ''\"\<newline>'' @
          ''        set priority of targetReminder to '' @ ''1'' @ ''\<newline>'' @
          ''      end tell\<newline>'' @
          ''    ''"
    by (rule t2) simp
  show ?thesis
    using a b by (simp add: boolean_text_def)
qed

end
